theory Spec2Isabelle
  imports Complex_Main
begin

section \<open>The request middleware of pcr/utils.py\<close>

text \<open>
  The module defines four decorators around a Django view: \<^verbatim>\<open>authenticate\<close>,
  \<^verbatim>\<open>allow\<close>, \<^verbatim>\<open>parameter\<close> and \<^verbatim>\<open>pagination\<close>. Each returns a
  \<^verbatim>\<open>wrapper(request)\<close> that either answers itself, or sets attributes of the request and
  ends with \<^verbatim>\<open>return func(request, *args, **kwargs)\<close>.
\<close>

subsection \<open>Python values\<close>

text \<open>
  The values the wrappers handle: what \<^verbatim>\<open>json.loads\<close> returns (None, bool, int, float,
  str, list, dict with string keys) and Django's \<^verbatim>\<open>QueryDict\<close> (a dict subclass whose
  keys carry lists of strings). A dict is a map from its keys; the code only looks keys up
  in these dicts and never iterates them. The payload of a float is never inspected.
\<close>

datatype py =
    PyNone
  | PyBool bool
  | PyInt int
  | PyFloat real
  | PyStr string
  | PyList "py list"
  | PyDict "string \<Rightarrow> py option"
  | QueryDict "string \<Rightarrow> string list option"

text \<open>
  The exceptions that occur in the module, or that the functions it calls raise, with
  their descriptions.
\<close>

datatype exn =
    JSONDecodeError string
  | UnicodeDecodeError string
  | RecursionError string
  | ValidationError string
  | ValueError string
  | TypeError
  | AttributeError
  | KeyError string

text \<open>
  What the two \<^verbatim>\<open>except\<close> clauses on built-in classes catch.
  \<^verbatim>\<open>except json.decoder.JSONDecodeError\<close> catches that class alone;
  \<^verbatim>\<open>except ValueError\<close> catches \<^verbatim>\<open>ValueError\<close> and its subclasses, of which
  \<^verbatim>\<open>JSONDecodeError\<close> and \<^verbatim>\<open>UnicodeDecodeError\<close> are two.
\<close>

fun isinstance_JSONDecodeError :: "exn \<Rightarrow> bool" where
  "isinstance_JSONDecodeError (JSONDecodeError d) = True"
| "isinstance_JSONDecodeError (UnicodeDecodeError d) = False"
| "isinstance_JSONDecodeError (RecursionError d) = False"
| "isinstance_JSONDecodeError (ValidationError d) = False"
| "isinstance_JSONDecodeError (ValueError d) = False"
| "isinstance_JSONDecodeError TypeError = False"
| "isinstance_JSONDecodeError AttributeError = False"
| "isinstance_JSONDecodeError (KeyError k) = False"

fun isinstance_ValueError :: "exn \<Rightarrow> bool" where
  "isinstance_ValueError (JSONDecodeError d) = True"
| "isinstance_ValueError (UnicodeDecodeError d) = True"
| "isinstance_ValueError (RecursionError d) = False"
| "isinstance_ValueError (ValidationError d) = False"
| "isinstance_ValueError (ValueError d) = True"
| "isinstance_ValueError TypeError = False"
| "isinstance_ValueError AttributeError = False"
| "isinstance_ValueError (KeyError k) = False"

subsection \<open>Requests, responses, handlers\<close>

text \<open>
  The fields of the request that the module reads, and the four attributes it sets
  (\<^verbatim>\<open>user\<close>, \<^verbatim>\<open>data\<close>, \<^verbatim>\<open>page\<close>, \<^verbatim>\<open>size\<close>); an attribute that has not been
  set is \<open>None\<close>. \<open>method'\<close> is \<^verbatim>\<open>request.method\<close> and \<open>size'\<close> is
  \<^verbatim>\<open>request.size\<close>.
\<close>

record ('i, 'u) request =
  method' :: string
  META :: "string \<rightharpoonup> string"
  body :: string
  GET :: "string \<rightharpoonup> string list"
  POST :: "string \<rightharpoonup> string list"
  session :: "string \<rightharpoonup> 'i"
  user :: "'u option"
  data :: "(string \<rightharpoonup> py) option"
  page :: "int option"
  size' :: "int option"

text \<open>
  Modelled from the spec: \<^verbatim>\<open>HttpResponseIncorrectParameter\<close> is declared in
  pcr/response.py, which is not among the sources. The spec describes it as an error
  response whose status code is fixed by the response type and whose content carries the
  error description; so it is a constructor of its own, holding the exception passed as
  \<^verbatim>\<open>content=err\<close>. \<^verbatim>\<open>HttpResponse(status=n)\<close> has Django's default content, the
  empty byte string.
\<close>

datatype response =
    HttpResponse string nat
  | HttpResponseIncorrectParameter exn

text \<open>
  What one run of a wrapper's body does: it returns a response of its own, or it ends in
  the call of the inner handler, or an exception leaves it. Each carries the request as
  the body left it, since the request is a mutable object the caller still holds.
\<close>

datatype ('i, 'u) outcome =
    Response response "('i, 'u) request"
  | Call "('i, 'u) request"
  | Raise exn "('i, 'u) request"

type_synonym ('i, 'u) handler =
  "('i, 'u) request \<Rightarrow> (exn + response) \<times> ('i, 'u) request"

text \<open>The decorated view: the body's outcome, with \<^verbatim>\<open>return func(request)\<close> carried out.\<close>

fun finish :: "('i, 'u) handler \<Rightarrow> ('i, 'u) outcome \<Rightarrow> (exn + response) \<times> ('i, 'u) request" where
  "finish func (Response r request) = (Inr r, request)"
| "finish func (Call request) = func request"
| "finish func (Raise e request) = (Inl e, request)"

subsection \<open>authenticate (lines 13-29)\<close>

text \<open>
  Modelled from the spec: the \<^verbatim>\<open>User\<close> model (user/models.py) is not among the sources.
  The spec gives the identity store as a lookup from an identifier to a record or
  not-found; \<open>users\<close> is that table, and \<open>None\<close> stands for \<^verbatim>\<open>User.DoesNotExist\<close>.
  A session without \<^verbatim>\<open>user_id\<close> gives \<^verbatim>\<open>get(id=None)\<close>, which matches no record.
\<close>

definition User_objects_get :: "('i \<rightharpoonup> 'u) \<Rightarrow> 'i option \<Rightarrow> 'u option" where
  "User_objects_get users user_id = (case user_id of None \<Rightarrow> None | Some i \<Rightarrow> users i)"

definition authenticate_wrapper :: "('i \<rightharpoonup> 'u) \<Rightarrow> ('i, 'u) request \<Rightarrow> ('i, 'u) outcome" where
  "authenticate_wrapper users request =
     (let user_id = session request ''user_id'' in
      case User_objects_get users user_id of
        None \<Rightarrow> Response (HttpResponse '''' 401) request
      | Some u \<Rightarrow> Call (request\<lparr>user := Some u\<rparr>))"

definition authenticate :: "('i \<rightharpoonup> 'u) \<Rightarrow> ('i, 'u) handler \<Rightarrow> ('i, 'u) handler" where
  "authenticate users func request = finish func (authenticate_wrapper users request)"

subsection \<open>allow (lines 32-47)\<close>

definition allow_wrapper :: "string list \<Rightarrow> ('i, 'u) request \<Rightarrow> ('i, 'u) outcome" where
  "allow_wrapper methods request =
     (if method' request \<notin> set methods then Response (HttpResponse '''' 404) request
      else Call request)"

definition allow :: "string list \<Rightarrow> ('i, 'u) handler \<Rightarrow> ('i, 'u) handler" where
  "allow methods func request = finish func (allow_wrapper methods request)"

subsection \<open>parameter (lines 50-86)\<close>

text \<open>
  The schema handed to the decorator is a JSON Schema document. The wrapper reads only
  \<^verbatim>\<open>schema.get('properties', {})\<close>, a dict from property names to property schemas (dicts
  again), which it iterates in order: \<open>properties\<close> is the list of its items, absent when
  the document has no such key. Every other keyword is read by the validator alone. A
  property schema is a dict here, as \<^verbatim>\<open>properties[key]['default']\<close> takes it to be; the
  boolean schemas of later JSON Schema drafts are outside this type.
\<close>

record schema =
  properties :: "(string \<times> (string \<rightharpoonup> py)) list option"
  other_keywords :: "string \<rightharpoonup> py"

definition schema_get_properties :: "schema \<Rightarrow> (string \<times> (string \<rightharpoonup> py)) list" where
  "schema_get_properties schema = (case properties schema of None \<Rightarrow> [] | Some ps \<Rightarrow> ps)"

text \<open>\<^verbatim>\<open>s.startswith(key)\<close> and \<^verbatim>\<open>key in s\<close> for strings (substring test).\<close>

fun startswith :: "string \<Rightarrow> string \<Rightarrow> bool" where
  "startswith s [] = True"
| "startswith [] (k # ks) = False"
| "startswith (c # s) (k # ks) = (c = k \<and> startswith s ks)"

fun str_contains :: "string \<Rightarrow> string \<Rightarrow> bool" where
  "str_contains [] key = (key = [])"
| "str_contains (c # s) key = (startswith (c # s) key \<or> str_contains s key)"

text \<open>
  \<^verbatim>\<open>key in data\<close> for a string key: membership of the key in a dict or QueryDict, equality
  with an element of a list, substring of a string, and a TypeError on None, a bool or a
  number (\<^verbatim>\<open>argument of type 'int' is not iterable\<close>).
\<close>

fun py_contains :: "py \<Rightarrow> string \<Rightarrow> exn + bool" where
  "py_contains (PyDict d) key = Inr (d key \<noteq> None)"
| "py_contains (QueryDict q) key = Inr (q key \<noteq> None)"
| "py_contains (PyList xs) key = Inr (PyStr key \<in> set xs)"
| "py_contains (PyStr s) key = Inr (str_contains s key)"
| "py_contains PyNone key = Inl TypeError"
| "py_contains (PyBool b) key = Inl TypeError"
| "py_contains (PyInt i) key = Inl TypeError"
| "py_contains (PyFloat x) key = Inl TypeError"

text \<open>
  \<^verbatim>\<open>QueryDict.get(key, default)\<close>: the last value of the key's list; the default when the
  key is absent or its list is empty.
\<close>

definition QueryDict_get :: "(string \<rightharpoonup> string list) \<Rightarrow> string \<Rightarrow> 'a \<Rightarrow> (string \<Rightarrow> 'a) \<Rightarrow> 'a" where
  "QueryDict_get q key default' found =
     (case q key of
        None \<Rightarrow> default'
      | Some [] \<Rightarrow> default'
      | Some (v # vs) \<Rightarrow> found (last (v # vs)))"

text \<open>
  \<^verbatim>\<open>data.get(key)\<close>: the value of a dict at the key (None when absent), the last value of
  a QueryDict as a str; any other value has no attribute \<^verbatim>\<open>get\<close>. The last argument of
  \<open>QueryDict_get\<close> says what type the value found is read at.
\<close>

fun py_get :: "py \<Rightarrow> string \<Rightarrow> exn + py" where
  "py_get (PyDict d) key = Inr (case d key of None \<Rightarrow> PyNone | Some v \<Rightarrow> v)"
| "py_get (QueryDict q) key = Inr (QueryDict_get q key PyNone PyStr)"
| "py_get PyNone key = Inl AttributeError"
| "py_get (PyBool b) key = Inl AttributeError"
| "py_get (PyInt i) key = Inl AttributeError"
| "py_get (PyFloat x) key = Inl AttributeError"
| "py_get (PyStr s) key = Inl AttributeError"
| "py_get (PyList xs) key = Inl AttributeError"

text \<open>
  Lines 61-71: the choice of \<^verbatim>\<open>data\<close>, before any \<^verbatim>\<open>except\<close> clause. \<open>loads\<close> is
  \<^verbatim>\<open>json.loads\<close>, a parameter of the model: \<open>Inr v\<close> is the value parsed and \<open>Inl e\<close>
  the exception raised, whichever it is (a \<^verbatim>\<open>JSONDecodeError\<close> for text that is not
  JSON, a \<^verbatim>\<open>UnicodeDecodeError\<close> for bytes that are not text, a \<^verbatim>\<open>RecursionError\<close>
  for nesting too deep).
\<close>

definition parameter_data :: "(string \<Rightarrow> exn + py) \<Rightarrow> ('i, 'u) request \<Rightarrow> exn + py" where
  "parameter_data loads request =
     (if META request ''CONTENT_TYPE'' = Some ''application/json'' then loads (body request)
      else if method' request = ''POST'' then Inr (QueryDict (POST request))
      else if method' request = ''GET'' then Inr (QueryDict (GET request))
      else Inr (PyDict Map.empty))"

text \<open>
  Lines 77-81, for one key of \<^verbatim>\<open>properties\<close>: the filter
  \<^verbatim>\<open>key in data or 'default' in properties[key]\<close>, then the value
  \<^verbatim>\<open>data.get(key) if key in data else properties[key]['default']\<close>. \<open>Inr None\<close>: the key
  is filtered out; \<open>Inr (Some v)\<close>: the item \<open>key: v\<close>.
\<close>

definition comprehension_item ::
  "(string \<times> (string \<rightharpoonup> py)) list \<Rightarrow> py \<Rightarrow> string \<Rightarrow> exn + py option" where
  "comprehension_item props data' key =
     (case py_contains data' key of
        Inl e \<Rightarrow> Inl e
      | Inr present \<Rightarrow>
          if present then
            (case py_get data' key of Inl e \<Rightarrow> Inl e | Inr v \<Rightarrow> Inr (Some v))
          else
            (case map_of props key of
               None \<Rightarrow> Inl (KeyError key)
             | Some p \<Rightarrow>
                 (case p ''default'' of None \<Rightarrow> Inr None | Some v \<Rightarrow> Inr (Some v))))"

text \<open>The dict comprehension: the keys in order, each item stored into the new dict.\<close>

fun dict_comprehension ::
  "(string \<times> (string \<rightharpoonup> py)) list \<Rightarrow> py \<Rightarrow> string list \<Rightarrow> (string \<rightharpoonup> py) \<Rightarrow> exn + (string \<rightharpoonup> py)" where
  "dict_comprehension props data' [] acc = Inr acc"
| "dict_comprehension props data' (key # keys) acc =
     (case comprehension_item props data' key of
        Inl e \<Rightarrow> Inl e
      | Inr None \<Rightarrow> dict_comprehension props data' keys acc
      | Inr (Some v) \<Rightarrow> dict_comprehension props data' keys (acc(key \<mapsto> v)))"

text \<open>Lines 76-81: the normalization step.\<close>

definition parameter_normalize :: "schema \<Rightarrow> py \<Rightarrow> exn + (string \<rightharpoonup> py)" where
  "parameter_normalize schema data' =
     (let props = schema_get_properties schema in
      dict_comprehension props data' (map fst props) Map.empty)"

text \<open>
  Lines 72-82: validation, normalization and the call of the inner handler, for the
  \<^verbatim>\<open>data\<close> chosen. \<open>validate\<close> is \<^verbatim>\<open>jsonschema.validate\<close>, a parameter of the
  model: \<open>None\<close> when it returns, \<open>Some d\<close> when it raises a \<^verbatim>\<open>ValidationError\<close>
  with description \<open>d\<close>. Nothing catches an exception of the normalization.
\<close>

definition parameter_validated ::
  "(py \<Rightarrow> schema \<Rightarrow> string option) \<Rightarrow> schema \<Rightarrow> ('i, 'u) request \<Rightarrow> py \<Rightarrow>
   ('i, 'u) outcome" where
  "parameter_validated validate schema request data' =
     (case validate data' schema of
        Some d \<Rightarrow> Response (HttpResponseIncorrectParameter (ValidationError d)) request
      | None \<Rightarrow>
          (case parameter_normalize schema data' of
             Inl e \<Rightarrow> Raise e request
           | Inr d \<Rightarrow> Call (request\<lparr>data := Some d\<rparr>)))"

text \<open>
  The wrapper, lines 60-82. Line 64 catches a \<^verbatim>\<open>JSONDecodeError\<close> of the parser and
  answers with it; any other exception of the parser leaves the wrapper.
\<close>

definition parameter_wrapper ::
  "(string \<Rightarrow> exn + py) \<Rightarrow> (py \<Rightarrow> schema \<Rightarrow> string option) \<Rightarrow> schema \<Rightarrow>
   ('i, 'u) request \<Rightarrow> ('i, 'u) outcome" where
  "parameter_wrapper loads validate schema request =
     (case parameter_data loads request of
        Inl err \<Rightarrow>
          if isinstance_JSONDecodeError err
          then Response (HttpResponseIncorrectParameter err) request
          else Raise err request
      | Inr data' \<Rightarrow> parameter_validated validate schema request data')"

definition parameter ::
  "(string \<Rightarrow> exn + py) \<Rightarrow> (py \<Rightarrow> schema \<Rightarrow> string option) \<Rightarrow> schema \<Rightarrow>
   ('i, 'u) handler \<Rightarrow> ('i, 'u) handler" where
  "parameter loads validate schema func request =
     finish func (parameter_wrapper loads validate schema request)"

subsection \<open>pagination (lines 89-117)\<close>

text \<open>\<^verbatim>\<open>str(n)\<close> for an int: its decimal digits, after a minus sign when negative.\<close>

fun str_nat :: "nat \<Rightarrow> string" where
  "str_nat n =
     (if n < 10 then [''0123456789'' ! n]
      else str_nat (n div 10) @ [''0123456789'' ! (n mod 10)])"

definition py_str :: "int \<Rightarrow> string" where
  "py_str i = (if i < 0 then CHR ''-'' # str_nat (nat (- i)) else str_nat (nat i))"

text \<open>
  Lines 111-112: \<^verbatim>\<open>except ValueError as err\<close> answers with the error; an exception of
  another class leaves the wrapper.
\<close>

definition except_ValueError :: "exn \<Rightarrow> ('i, 'u) request \<Rightarrow> ('i, 'u) outcome" where
  "except_ValueError err request =
     (if isinstance_ValueError err then Response (HttpResponseIncorrectParameter err) request
      else Raise err request)"

text \<open>
  The wrapper. \<open>int'\<close> is the built-in \<^verbatim>\<open>int\<close> applied to a str, a parameter of the
  model: \<open>Inr n\<close> is the integer read and \<open>Inl e\<close> the exception raised (a
  \<^verbatim>\<open>ValueError\<close> when the str is not an integer literal). \<^verbatim>\<open>request.page\<close> is assigned
  before \<^verbatim>\<open>int(size)\<close> is evaluated.
\<close>

definition pagination_wrapper ::
  "(string \<Rightarrow> exn + int) \<Rightarrow> int \<Rightarrow> int \<Rightarrow> int \<Rightarrow> ('i, 'u) request \<Rightarrow> ('i, 'u) outcome" where
  "pagination_wrapper int' default' min_size max_size request =
     (if method' request \<noteq> ''GET'' then Call request
      else
        let page_str = QueryDict_get (GET request) ''page'' ''1'' id;
            size_str = QueryDict_get (GET request) ''size'' (py_str default') id
        in case int' page_str of
             Inl err \<Rightarrow> except_ValueError err request
           | Inr p \<Rightarrow>
               (let request = request\<lparr>page := Some p\<rparr>
                in case int' size_str of
                     Inl err \<Rightarrow> except_ValueError err request
                   | Inr s \<Rightarrow> Call (request\<lparr>size' := Some (min (max s min_size) max_size)\<rparr>)))"

definition pagination ::
  "(string \<Rightarrow> exn + int) \<Rightarrow> int \<Rightarrow> int \<Rightarrow> int \<Rightarrow> ('i, 'u) handler \<Rightarrow> ('i, 'u) handler" where
  "pagination int' default' min_size max_size func request =
     finish func (pagination_wrapper int' default' min_size max_size request)"

subsection \<open>Reading an outcome, and example values\<close>

fun outcome_request :: "('i, 'u) outcome \<Rightarrow> ('i, 'u) request" where
  "outcome_request (Response r request) = request"
| "outcome_request (Call request) = request"
| "outcome_request (Raise e request) = request"

text \<open>A GET request with nothing in it: no header, no parameter, an empty session.\<close>

definition anonymous :: "(nat, string) request" where
  "anonymous =
     \<lparr>method' = ''GET'', META = Map.empty, body = '''', GET = Map.empty, POST = Map.empty,
      session = Map.empty, user = None, data = None, page = None, size' = None\<rparr>"

subsection \<open>The normalization rule in the specification's words\<close>

text \<open>
  The chosen \<^verbatim>\<open>data\<close> read as a mapping from keys to values: a dict is its own mapping, a
  QueryDict maps each of its keys to what \<^verbatim>\<open>get\<close> returns for it, and no other value is
  a mapping.
\<close>

definition input_mapping :: "py \<Rightarrow> (string \<rightharpoonup> py) option" where
  "input_mapping data' =
     (case data' of
        PyDict d \<Rightarrow> Some d
      | QueryDict q \<Rightarrow>
          Some (\<lambda>key. case q key of
                         None \<Rightarrow> None
                       | Some vs \<Rightarrow> Some (QueryDict_get q key PyNone PyStr))
      | _ \<Rightarrow> None)"

text \<open>
  The specification's rule, for the items \<open>props\<close> of \<^verbatim>\<open>schema.properties\<close>: a
  property name that is a key of the input takes the input's value; otherwise, if the
  property declares a \<^verbatim>\<open>default\<close>, it takes that; otherwise it is left out, as is every
  key that is not a property name.
\<close>

definition spec_normalized ::
  "(string \<times> (string \<rightharpoonup> py)) list \<Rightarrow> (string \<rightharpoonup> py) \<Rightarrow> (string \<rightharpoonup> py)" where
  "spec_normalized props input key =
     (case map_of props key of
        None \<Rightarrow> None
      | Some p \<Rightarrow> (case input key of Some v \<Rightarrow> Some v | None \<Rightarrow> p ''default''))"

subsection \<open>Example parsers, validators, schemas and requests\<close>

text \<open>
  A JSON parser that knows one document and raises a \<^verbatim>\<open>JSONDecodeError\<close> on any other
  text; the same parser on a body of bytes that are not UTF-8, where \<^verbatim>\<open>json.loads\<close>
  raises a \<^verbatim>\<open>UnicodeDecodeError\<close>; a validator that accepts everything (as
  \<^verbatim>\<open>jsonschema\<close> does for a schema that constrains nothing: \<^verbatim>\<open>properties\<close> applies to
  objects only, and \<^verbatim>\<open>{}\<close> admits every value); a validator that requires the key
  \<^verbatim>\<open>name\<close>; the schema with the given properties and no other keyword; and a request
  with a JSON body.
\<close>

definition loads_only :: "string \<Rightarrow> py \<Rightarrow> string \<Rightarrow> exn + py" where
  "loads_only doc v s = (if s = doc then Inr v else Inl (JSONDecodeError ''Expecting value''))"

definition loads_bytes :: "string \<Rightarrow> py \<Rightarrow> string \<Rightarrow> exn + py" where
  "loads_bytes doc v s =
     (if s = [CHR 0xFF] then Inl (UnicodeDecodeError ''invalid start byte'')
      else loads_only doc v s)"

definition accepts :: "py \<Rightarrow> schema \<Rightarrow> string option" where
  "accepts data' schema = None"

definition requires_name :: "py \<Rightarrow> schema \<Rightarrow> string option" where
  "requires_name data' schema =
     (if py_contains data' ''name'' = Inr True then None
      else Some ''name is a required property'')"

definition schema_of :: "(string \<times> (string \<rightharpoonup> py)) list \<Rightarrow> schema" where
  "schema_of props = \<lparr>properties = Some props, other_keywords = Map.empty\<rparr>"

definition json_request :: "string \<Rightarrow> string \<Rightarrow> (nat, string) request" where
  "json_request verb doc =
     anonymous\<lparr>method' := verb, META := [''CONTENT_TYPE'' \<mapsto> ''application/json''], body := doc\<rparr>"

text \<open>
  \<^verbatim>\<open>int\<close> on the strings of the examples below, where it agrees with the built-in:
  each literal of the table is read as the integer it writes, and \<^verbatim>\<open>int('big')\<close>
  raises a \<^verbatim>\<open>ValueError\<close>. No other string occurs in the examples.
\<close>

definition int_example :: "string \<Rightarrow> exn + int" where
  "int_example s =
     (case map_of [(''0'', 0), (''1'', 1), (''3'', 3), (''10'', 10), (''12'', 12),
                   (''999'', 999), (''-3'', - 3)] s of
        Some n \<Rightarrow> Inr n
      | None \<Rightarrow> Inl (ValueError s))"

section \<open>Properties\<close>

subsection \<open>authenticate\<close>

text \<open>
  C7. When the session holds no \<^verbatim>\<open>user_id\<close>, or holds one that no record of the identity
  store has, the wrapper answers 401 with an empty body, leaves the request as it was and
  does not call the inner handler, whatever that handler is. When the identifier resolves
  to a record, the wrapper sets \<^verbatim>\<open>request.user\<close> to the record and its result is the inner
  handler's, called on that request.
\<close>

theorem authenticate_unauthorized_or_delegates:
  "((session request ''user_id'' = None
      \<or> (\<exists>i. session request ''user_id'' = Some i \<and> users i = None)) \<longrightarrow>
      authenticate_wrapper users request = Response (HttpResponse '''' 401) request
      \<and> (\<forall>func. authenticate users func request = (Inr (HttpResponse '''' 401), request)))
   \<and> (\<forall>i u. session request ''user_id'' = Some i \<and> users i = Some u \<longrightarrow>
      authenticate_wrapper users request = Call (request\<lparr>user := Some u\<rparr>)
      \<and> (\<forall>func. authenticate users func request = func (request\<lparr>user := Some u\<rparr>)))"
  by (auto simp add: authenticate_def authenticate_wrapper_def User_objects_get_def)

theorem authenticate_unauthorized_or_delegates_witness:
  "authenticate_wrapper [7 \<mapsto> ''alice''] anonymous = Response (HttpResponse '''' 401) anonymous
   \<and> authenticate_wrapper [7 \<mapsto> ''alice''] (anonymous\<lparr>session := [''user_id'' \<mapsto> 8]\<rparr>)
       = Response (HttpResponse '''' 401) (anonymous\<lparr>session := [''user_id'' \<mapsto> 8]\<rparr>)
   \<and> authenticate_wrapper [7 \<mapsto> ''alice''] (anonymous\<lparr>session := [''user_id'' \<mapsto> 7]\<rparr>)
       = Call (anonymous\<lparr>session := [''user_id'' \<mapsto> 7], user := Some ''alice''\<rparr>)"
  using authenticate_unauthorized_or_delegates [of anonymous "[7 \<mapsto> ''alice'']"]
    authenticate_unauthorized_or_delegates
      [of "anonymous\<lparr>session := [''user_id'' \<mapsto> 8]\<rparr>" "[7 \<mapsto> ''alice'']"]
    authenticate_unauthorized_or_delegates
      [of "anonymous\<lparr>session := [''user_id'' \<mapsto> 7]\<rparr>" "[7 \<mapsto> ''alice'']"]
  by (simp add: anonymous_def)

subsection \<open>allow\<close>

text \<open>
  C8. For the list of verbs given to the decorator: a request whose verb is not in the
  list is answered 404 (not 405) with the request untouched and the inner handler not
  called; a request whose verb is in the list goes to the inner handler as it is, and the
  result is that handler's.
\<close>

theorem allow_not_found_or_delegates:
  "(method' request \<notin> set methods \<longrightarrow>
      allow_wrapper methods request = Response (HttpResponse '''' 404) request
      \<and> (\<forall>func. allow methods func request = (Inr (HttpResponse '''' 404), request)))
   \<and> (method' request \<in> set methods \<longrightarrow>
      allow_wrapper methods request = Call request
      \<and> (\<forall>func. allow methods func request = func request))"
  by (simp add: allow_def allow_wrapper_def)

theorem allow_not_found_or_delegates_witness:
  "allow_wrapper [''GET'', ''POST''] (anonymous\<lparr>method' := ''DELETE''\<rparr>)
     = Response (HttpResponse '''' 404) (anonymous\<lparr>method' := ''DELETE''\<rparr>)
   \<and> allow_wrapper [''GET'', ''POST''] anonymous = Call anonymous"
  using allow_not_found_or_delegates [of "anonymous\<lparr>method' := ''DELETE''\<rparr>" "[''GET'', ''POST'']"]
    allow_not_found_or_delegates [of anonymous "[''GET'', ''POST'']"]
  by (simp add: anonymous_def)

subsection \<open>pagination\<close>

lemma py_str_10: "py_str 10 = ''10''"
  by (simp add: py_str_def)

lemma pagination_wrapper_GET:
  assumes "method' request = ''GET''"
    and "int' (QueryDict_get (GET request) ''page'' ''1'' id) = Inr p"
    and "int' (QueryDict_get (GET request) ''size'' (py_str default') id) = Inr s"
  shows "pagination_wrapper int' default' min_size max_size request
         = Call (request\<lparr>page := Some p, size' := Some (min (max s min_size) max_size)\<rparr>)"
  using assms by (simp add: pagination_wrapper_def)

text \<open>
  C3. For a GET request whose \<^verbatim>\<open>page\<close> (default "1") and \<^verbatim>\<open>size\<close> (default
  \<^verbatim>\<open>str(default)\<close>) are both read by \<^verbatim>\<open>int\<close> as integers \<open>p\<close> and \<open>s\<close>, the wrapper
  sets \<^verbatim>\<open>request.page\<close> to \<open>p\<close> unchanged and \<^verbatim>\<open>request.size\<close> to
  \<^verbatim>\<open>min(max(s, min_size), max_size)\<close>, which lies in \<open>[min_size, max_size]\<close> when that
  interval is not empty, and calls the inner handler on the request so changed. This holds
  whatever strings \<^verbatim>\<open>int\<close> reads as integers. With the constructor defaults 10, 1, 20,
  and \<^verbatim>\<open>int\<close> reading "999", "0", "1" and "10" as the integers they write: size "999"
  gives 20, size "0" gives 1, and a request with neither parameter gets page 1 and
  size 10.
\<close>

theorem pagination_GET_page_and_clamped_size:
  "(\<forall>p s. method' request = ''GET''
       \<and> int' (QueryDict_get (GET request) ''page'' ''1'' id) = Inr p
       \<and> int' (QueryDict_get (GET request) ''size'' (py_str default') id) = Inr s
     \<longrightarrow> pagination_wrapper int' default' min_size max_size request
           = Call (request\<lparr>page := Some p, size' := Some (min (max s min_size) max_size)\<rparr>)
         \<and> (\<forall>func. pagination int' default' min_size max_size func request
               = func (request\<lparr>page := Some p, size' := Some (min (max s min_size) max_size)\<rparr>))
         \<and> (min_size \<le> max_size \<longrightarrow>
               min_size \<le> min (max s min_size) max_size
               \<and> min (max s min_size) max_size \<le> max_size))
   \<and> (\<forall>p. method' request = ''GET''
       \<and> int' (QueryDict_get (GET request) ''page'' ''1'' id) = Inr p
       \<and> GET request ''size'' = Some [''999''] \<and> int' ''999'' = Inr 999
     \<longrightarrow> pagination_wrapper int' 10 1 20 request
           = Call (request\<lparr>page := Some p, size' := Some 20\<rparr>))
   \<and> (\<forall>p. method' request = ''GET''
       \<and> int' (QueryDict_get (GET request) ''page'' ''1'' id) = Inr p
       \<and> GET request ''size'' = Some [''0''] \<and> int' ''0'' = Inr 0
     \<longrightarrow> pagination_wrapper int' 10 1 20 request
           = Call (request\<lparr>page := Some p, size' := Some 1\<rparr>))
   \<and> (method' request = ''GET'' \<and> GET request ''page'' = None \<and> GET request ''size'' = None
       \<and> int' ''1'' = Inr 1 \<and> int' ''10'' = Inr 10
     \<longrightarrow> pagination_wrapper int' 10 1 20 request
           = Call (request\<lparr>page := Some 1, size' := Some 10\<rparr>))"
proof (intro conjI allI impI)
  fix p s
  assume "method' request = ''GET''
       \<and> int' (QueryDict_get (GET request) ''page'' ''1'' id) = Inr p
       \<and> int' (QueryDict_get (GET request) ''size'' (py_str default') id) = Inr s"
  then show called: "pagination_wrapper int' default' min_size max_size request
           = Call (request\<lparr>page := Some p, size' := Some (min (max s min_size) max_size)\<rparr>)"
    by (simp add: pagination_wrapper_GET)
  show "pagination int' default' min_size max_size func request
          = func (request\<lparr>page := Some p, size' := Some (min (max s min_size) max_size)\<rparr>)"
    for func
    by (simp add: pagination_def called)
  show "min_size \<le> min (max s min_size) max_size" if "min_size \<le> max_size"
    using that by simp
  show "min (max s min_size) max_size \<le> max_size"
    by simp
next
  fix p
  assume "method' request = ''GET''
       \<and> int' (QueryDict_get (GET request) ''page'' ''1'' id) = Inr p
       \<and> GET request ''size'' = Some [''999''] \<and> int' ''999'' = Inr 999"
  then show "pagination_wrapper int' 10 1 20 request
               = Call (request\<lparr>page := Some p, size' := Some 20\<rparr>)"
    using pagination_wrapper_GET [of request int' p 10 999 1 20]
    by (simp add: QueryDict_get_def)
next
  fix p
  assume "method' request = ''GET''
       \<and> int' (QueryDict_get (GET request) ''page'' ''1'' id) = Inr p
       \<and> GET request ''size'' = Some [''0''] \<and> int' ''0'' = Inr 0"
  then show "pagination_wrapper int' 10 1 20 request
               = Call (request\<lparr>page := Some p, size' := Some 1\<rparr>)"
    using pagination_wrapper_GET [of request int' p 10 0 1 20]
    by (simp add: QueryDict_get_def)
next
  assume "method' request = ''GET'' \<and> GET request ''page'' = None \<and> GET request ''size'' = None
       \<and> int' ''1'' = Inr 1 \<and> int' ''10'' = Inr 10"
  then show "pagination_wrapper int' 10 1 20 request
               = Call (request\<lparr>page := Some 1, size' := Some 10\<rparr>)"
    using pagination_wrapper_GET [of request int' 1 10 10 1 20]
    by (simp add: QueryDict_get_def py_str_10)
qed

theorem pagination_GET_page_and_clamped_size_witness:
  "pagination_wrapper int_example 5 2 8
       (anonymous\<lparr>GET := [''page'' \<mapsto> [''-3''], ''size'' \<mapsto> [''3'', ''12'']]\<rparr>)
     = Call (anonymous\<lparr>GET := [''page'' \<mapsto> [''-3''], ''size'' \<mapsto> [''3'', ''12'']],
                       page := Some (- 3), size' := Some 8\<rparr>)
   \<and> pagination_wrapper int_example 10 1 20 (anonymous\<lparr>GET := [''size'' \<mapsto> [''999'']]\<rparr>)
     = Call (anonymous\<lparr>GET := [''size'' \<mapsto> [''999'']], page := Some 1, size' := Some 20\<rparr>)
   \<and> pagination_wrapper int_example 10 1 20 (anonymous\<lparr>GET := [''size'' \<mapsto> [''0'']]\<rparr>)
     = Call (anonymous\<lparr>GET := [''size'' \<mapsto> [''0'']], page := Some 1, size' := Some 1\<rparr>)
   \<and> pagination_wrapper int_example 10 1 20 anonymous
     = Call (anonymous\<lparr>page := Some 1, size' := Some 10\<rparr>)"
proof (intro conjI)
  show "pagination_wrapper int_example 5 2 8
       (anonymous\<lparr>GET := [''page'' \<mapsto> [''-3''], ''size'' \<mapsto> [''3'', ''12'']]\<rparr>)
     = Call (anonymous\<lparr>GET := [''page'' \<mapsto> [''-3''], ''size'' \<mapsto> [''3'', ''12'']],
                       page := Some (- 3), size' := Some 8\<rparr>)"
    using pagination_GET_page_and_clamped_size
      [of "anonymous\<lparr>GET := [''page'' \<mapsto> [''-3''], ''size'' \<mapsto> [''3'', ''12'']]\<rparr>"
        int_example 5 2 8, THEN conjunct1, rule_format, of "- 3" 12]
    by (simp add: anonymous_def QueryDict_get_def int_example_def)
  show "pagination_wrapper int_example 10 1 20 (anonymous\<lparr>GET := [''size'' \<mapsto> [''999'']]\<rparr>)
     = Call (anonymous\<lparr>GET := [''size'' \<mapsto> [''999'']], page := Some 1, size' := Some 20\<rparr>)"
    using pagination_GET_page_and_clamped_size
      [of "anonymous\<lparr>GET := [''size'' \<mapsto> [''999'']]\<rparr>" int_example 10 1 20,
        THEN conjunct2, THEN conjunct1, rule_format, of 1]
    by (simp add: anonymous_def QueryDict_get_def int_example_def)
  show "pagination_wrapper int_example 10 1 20 (anonymous\<lparr>GET := [''size'' \<mapsto> [''0'']]\<rparr>)
     = Call (anonymous\<lparr>GET := [''size'' \<mapsto> [''0'']], page := Some 1, size' := Some 1\<rparr>)"
    using pagination_GET_page_and_clamped_size
      [of "anonymous\<lparr>GET := [''size'' \<mapsto> [''0'']]\<rparr>" int_example 10 1 20,
        THEN conjunct2, THEN conjunct2, THEN conjunct1, rule_format, of 1]
    by (simp add: anonymous_def QueryDict_get_def int_example_def)
  show "pagination_wrapper int_example 10 1 20 anonymous
     = Call (anonymous\<lparr>page := Some 1, size' := Some 10\<rparr>)"
    using pagination_GET_page_and_clamped_size
      [of anonymous int_example 10 1 20, THEN conjunct2, THEN conjunct2, THEN conjunct2]
    by (simp add: anonymous_def int_example_def)
qed

text \<open>
  C9. For a request whose verb is not GET the wrapper calls the inner handler on the
  request as it came, so neither \<^verbatim>\<open>request.page\<close> nor \<^verbatim>\<open>request.size\<close> is set; and
  whenever the request the wrapper leaves behind differs from the incoming one in
  \<^verbatim>\<open>page\<close> or \<^verbatim>\<open>size\<close>, the verb was GET.
\<close>

theorem pagination_non_GET_unchanged:
  "(method' request \<noteq> ''GET'' \<longrightarrow>
      pagination_wrapper int' default' min_size max_size request = Call request
      \<and> (\<forall>func. pagination int' default' min_size max_size func request = func request))
   \<and> (page (outcome_request (pagination_wrapper int' default' min_size max_size request))
          \<noteq> page request
        \<or> size' (outcome_request (pagination_wrapper int' default' min_size max_size request))
          \<noteq> size' request
      \<longrightarrow> method' request = ''GET'')"
  by (auto simp add: pagination_def pagination_wrapper_def)

theorem pagination_non_GET_unchanged_witness:
  "pagination_wrapper int_example 10 1 20
       (anonymous\<lparr>method' := ''POST'', GET := [''page'' \<mapsto> [''3'']]\<rparr>)
     = Call (anonymous\<lparr>method' := ''POST'', GET := [''page'' \<mapsto> [''3'']]\<rparr>)
   \<and> page (outcome_request (pagination_wrapper int_example 10 1 20 anonymous)) \<noteq> page anonymous
   \<and> method' anonymous = ''GET''"
  using pagination_non_GET_unchanged
      [of "anonymous\<lparr>method' := ''POST'', GET := [''page'' \<mapsto> [''3'']]\<rparr>" int_example 10 1 20]
    pagination_non_GET_unchanged [of anonymous int_example 10 1 20]
  by (simp add: anonymous_def pagination_wrapper_def QueryDict_get_def int_example_def
      py_str_def)

text \<open>
  C10. For a GET request whose \<^verbatim>\<open>page\<close> is read by \<^verbatim>\<open>int\<close> as the integer \<open>p\<close> and on
  whose \<^verbatim>\<open>size\<close> \<^verbatim>\<open>int\<close> raises a \<^verbatim>\<open>ValueError\<close>, the wrapper answers with the error
  response carrying that error and does not call the inner handler; the request it leaves
  behind already has \<^verbatim>\<open>page\<close> set to \<open>p\<close>. This holds whatever strings \<^verbatim>\<open>int\<close> reads
  as integers.
\<close>

theorem pagination_error_keeps_page:
  "method' request = ''GET''
   \<and> int' (QueryDict_get (GET request) ''page'' ''1'' id) = Inr p
   \<and> int' (QueryDict_get (GET request) ''size'' (py_str default') id) = Inl err
   \<and> isinstance_ValueError err
   \<longrightarrow> pagination_wrapper int' default' min_size max_size request
         = Response (HttpResponseIncorrectParameter err) (request\<lparr>page := Some p\<rparr>)
       \<and> (\<forall>func. pagination int' default' min_size max_size func request
             = (Inr (HttpResponseIncorrectParameter err), request\<lparr>page := Some p\<rparr>))"
  by (simp add: pagination_def pagination_wrapper_def except_ValueError_def)

theorem pagination_error_keeps_page_witness:
  "pagination_wrapper int_example 10 1 20
       (anonymous\<lparr>GET := [''page'' \<mapsto> [''3''], ''size'' \<mapsto> [''big'']]\<rparr>)
     = Response (HttpResponseIncorrectParameter (ValueError ''big''))
         (anonymous\<lparr>GET := [''page'' \<mapsto> [''3''], ''size'' \<mapsto> [''big'']], page := Some 3\<rparr>)"
  using pagination_error_keeps_page
      [of "anonymous\<lparr>GET := [''page'' \<mapsto> [''3''], ''size'' \<mapsto> [''big'']]\<rparr>"
        int_example 3 10 "ValueError ''big''" 1 20]
  by (simp add: anonymous_def QueryDict_get_def int_example_def py_str_def)

subsection \<open>parameter: the choice of the input\<close>

text \<open>
  C2. The input is chosen in this order: when the content type is exactly
  \<^verbatim>\<open>application/json\<close>, the body is parsed, whatever the verb and the form or query
  parameters are; otherwise a POST request gives its form parameters, otherwise a GET
  request gives its query parameters, otherwise the input is the empty dict. The rest of
  the wrapper runs on the input so chosen. When the content type is anything else, neither
  the body nor the parser has any part in the choice.
\<close>

theorem parameter_input_selection:
  "(META request ''CONTENT_TYPE'' = Some ''application/json'' \<longrightarrow>
      parameter_data loads request = loads (body request)
      \<and> (\<forall>v. loads (body request) = Inr v \<longrightarrow>
            parameter_wrapper loads validate schema request
              = parameter_validated validate schema request v)
      \<and> (\<forall>m g p. parameter_data loads (request\<lparr>method' := m, GET := g, POST := p\<rparr>)
            = parameter_data loads request))
   \<and> (META request ''CONTENT_TYPE'' \<noteq> Some ''application/json'' \<longrightarrow>
      (method' request = ''POST'' \<longrightarrow>
         parameter_data loads request = Inr (QueryDict (POST request))
         \<and> parameter_wrapper loads validate schema request
             = parameter_validated validate schema request (QueryDict (POST request)))
      \<and> (method' request \<noteq> ''POST'' \<and> method' request = ''GET'' \<longrightarrow>
         parameter_data loads request = Inr (QueryDict (GET request))
         \<and> parameter_wrapper loads validate schema request
             = parameter_validated validate schema request (QueryDict (GET request)))
      \<and> (method' request \<noteq> ''POST'' \<and> method' request \<noteq> ''GET'' \<longrightarrow>
         parameter_data loads request = Inr (PyDict Map.empty)
         \<and> parameter_wrapper loads validate schema request
             = parameter_validated validate schema request (PyDict Map.empty))
      \<and> (\<forall>b loads'. parameter_data loads' (request\<lparr>body := b\<rparr>) = parameter_data loads request))"
  by (simp add: parameter_wrapper_def parameter_data_def)

theorem parameter_input_selection_witness:
  "parameter_data (loads_only ''{}'' (PyDict Map.empty))
       (json_request ''GET'' ''{}''\<lparr>GET := [''name'' \<mapsto> [''alice'']]\<rparr>)
     = Inr (PyDict Map.empty)
   \<and> parameter_data (loads_only ''{}'' (PyDict Map.empty))
       (anonymous\<lparr>method' := ''POST'', body := ''{}'', POST := [''name'' \<mapsto> [''alice'']]\<rparr>)
     = Inr (QueryDict [''name'' \<mapsto> [''alice'']])
   \<and> parameter_data (loads_only ''{}'' (PyDict Map.empty))
       (anonymous\<lparr>META := [''CONTENT_TYPE'' \<mapsto> ''application/json; charset=utf-8''],
                  body := ''{}'', GET := [''name'' \<mapsto> [''bob'']]\<rparr>)
     = Inr (QueryDict [''name'' \<mapsto> [''bob'']])
   \<and> parameter_data (loads_only ''{}'' (PyDict Map.empty))
       (anonymous\<lparr>method' := ''DELETE'', GET := [''name'' \<mapsto> [''bob'']]\<rparr>)
     = Inr (PyDict Map.empty)"
  using parameter_input_selection
      [of "json_request ''GET'' ''{}''\<lparr>GET := [''name'' \<mapsto> [''alice'']]\<rparr>"
        "loads_only ''{}'' (PyDict Map.empty)" accepts "schema_of []"]
    parameter_input_selection
      [of "anonymous\<lparr>method' := ''POST'', body := ''{}'', POST := [''name'' \<mapsto> [''alice'']]\<rparr>"
        "loads_only ''{}'' (PyDict Map.empty)" accepts "schema_of []"]
    parameter_input_selection
      [of "anonymous\<lparr>META := [''CONTENT_TYPE'' \<mapsto> ''application/json; charset=utf-8''],
                     body := ''{}'', GET := [''name'' \<mapsto> [''bob'']]\<rparr>"
        "loads_only ''{}'' (PyDict Map.empty)" accepts "schema_of []"]
    parameter_input_selection
      [of "anonymous\<lparr>method' := ''DELETE'', GET := [''name'' \<mapsto> [''bob'']]\<rparr>"
        "loads_only ''{}'' (PyDict Map.empty)" accepts "schema_of []"]
  by (simp add: anonymous_def json_request_def loads_only_def)

subsection \<open>parameter: the error responses\<close>

lemma parameter_validated_Response_iff:
  "(\<exists>resp r. parameter_validated validate schema request data' = Response resp r)
   \<longleftrightarrow> (\<exists>d. validate data' schema = Some d)"
  by (auto simp add: parameter_validated_def split: option.splits sum.splits)

lemma parameter_data_Inl:
  assumes "parameter_data loads request = Inl err"
  shows "META request ''CONTENT_TYPE'' = Some ''application/json'' \<and> loads (body request) = Inl err"
  using assms by (auto simp add: parameter_data_def split: if_splits)

text \<open>
  What the code does: the wrapper answers by itself exactly when the content type is
  \<^verbatim>\<open>application/json\<close> and the parser raises a \<^verbatim>\<open>JSONDecodeError\<close>, or the input
  chosen fails validation. Both answers are an \<^verbatim>\<open>HttpResponseIncorrectParameter\<close> on the
  untouched request; the first carries the parser's error, the second the validator's.
\<close>

lemma parameter_wrapper_Response_iff:
  "(\<exists>resp r. parameter_wrapper loads validate schema request = Response resp r)
   \<longleftrightarrow> (META request ''CONTENT_TYPE'' = Some ''application/json''
          \<and> (\<exists>d. loads (body request) = Inl (JSONDecodeError d)))
       \<or> (\<exists>data' d. parameter_data loads request = Inr data' \<and> validate data' schema = Some d)"
proof (cases "parameter_data loads request")
  case (Inl err)
  then have parsed: "META request ''CONTENT_TYPE'' = Some ''application/json''
      \<and> loads (body request) = Inl err"
    by (rule parameter_data_Inl)
  show ?thesis
  proof (cases "isinstance_JSONDecodeError err")
    case True
    then obtain d where "err = JSONDecodeError d"
      by (cases err) simp_all
    then show ?thesis
      using Inl parsed by (simp add: parameter_wrapper_def)
  next
    case False
    then have "\<forall>d. err \<noteq> JSONDecodeError d"
      by auto
    then show ?thesis
      using Inl parsed False by (simp add: parameter_wrapper_def)
  qed
next
  case (Inr data')
  then have "\<not> (META request ''CONTENT_TYPE'' = Some ''application/json''
      \<and> (\<exists>d. loads (body request) = Inl (JSONDecodeError d)))"
    by (auto simp add: parameter_data_def)
  then show ?thesis
    using Inr parameter_validated_Response_iff [of validate schema request data']
    by (auto simp add: parameter_wrapper_def)
qed

lemma parameter_wrapper_JSONDecodeError:
  assumes "META request ''CONTENT_TYPE'' = Some ''application/json''"
    and "loads (body request) = Inl (JSONDecodeError d)"
  shows "parameter_wrapper loads validate schema request
         = Response (HttpResponseIncorrectParameter (JSONDecodeError d)) request"
  using assms by (simp add: parameter_wrapper_def parameter_data_def)

lemma parameter_wrapper_ValidationError:
  assumes "parameter_data loads request = Inr data'"
    and "validate data' schema = Some d"
  shows "parameter_wrapper loads validate schema request
         = Response (HttpResponseIncorrectParameter (ValidationError d)) request"
  using assms by (simp add: parameter_wrapper_def parameter_validated_def)

text \<open>
  C4. The claim is that the wrapper answers with the error response exactly when the
  parse of the body fails or the input fails validation. The code does not keep the first
  half. On the body \<^verbatim>\<open>b'\xff'\<close> under content type \<^verbatim>\<open>application/json\<close> the parse
  fails with a \<^verbatim>\<open>UnicodeDecodeError\<close>, which line 64 does not catch: the exception
  leaves the wrapper, the inner handler is not called and no response is made.
\<close>

theorem parameter_raises_on_undecodable_body:
  "parameter_wrapper (loads_bytes ''{}'' (PyDict Map.empty)) accepts (schema_of [])
       (json_request ''POST'' [CHR 0xFF])
     = Raise (UnicodeDecodeError ''invalid start byte'') (json_request ''POST'' [CHR 0xFF])
   \<and> parameter (loads_bytes ''{}'' (PyDict Map.empty)) accepts (schema_of [])
       (\<lambda>r. (Inr (HttpResponse '''' 200), r)) (json_request ''POST'' [CHR 0xFF])
     = (Inl (UnicodeDecodeError ''invalid start byte''), json_request ''POST'' [CHR 0xFF])"
  by (simp add: parameter_def parameter_wrapper_def parameter_data_def json_request_def
      anonymous_def loads_bytes_def)

subsection \<open>parameter: the dict comprehension\<close>

text \<open>
  When every key of the list yields an item or is filtered out, the comprehension stores
  the items over the accumulator and leaves the rest of it alone.
\<close>

lemma dict_comprehension_items:
  assumes "\<And>key. key \<in> set keys \<Longrightarrow> comprehension_item props data' key = Inr (f key)"
  shows "dict_comprehension props data' keys acc
         = Inr (\<lambda>key. if key \<in> set keys then (case f key of None \<Rightarrow> acc key | Some v \<Rightarrow> Some v)
                       else acc key)"
  using assms
proof (induction keys arbitrary: acc)
  case Nil
  then show ?case by simp
next
  case (Cons k keys)
  have item: "comprehension_item props data' k = Inr (f k)"
    using Cons.prems by simp
  have rest: "\<And>key. key \<in> set keys \<Longrightarrow> comprehension_item props data' key = Inr (f key)"
    using Cons.prems by simp
  show ?case
  proof (cases "f k")
    case None
    have "dict_comprehension props data' (k # keys) acc = dict_comprehension props data' keys acc"
      using item None by simp
    also have "\<dots> = Inr (\<lambda>key. if key \<in> set keys
                                then (case f key of None \<Rightarrow> acc key | Some v \<Rightarrow> Some v)
                                else acc key)"
      by (rule Cons.IH [OF rest])
    also have "(\<lambda>key. if key \<in> set keys
                      then (case f key of None \<Rightarrow> acc key | Some v \<Rightarrow> Some v) else acc key)
             = (\<lambda>key. if key \<in> set (k # keys)
                      then (case f key of None \<Rightarrow> acc key | Some v \<Rightarrow> Some v) else acc key)"
      using None by (auto simp add: fun_eq_iff)
    finally show ?thesis .
  next
    case (Some v)
    have "dict_comprehension props data' (k # keys) acc
          = dict_comprehension props data' keys (acc(k \<mapsto> v))"
      using item Some by simp
    also have "\<dots> = Inr (\<lambda>key. if key \<in> set keys
                                then (case f key of None \<Rightarrow> (acc(k \<mapsto> v)) key | Some v \<Rightarrow> Some v)
                                else (acc(k \<mapsto> v)) key)"
      by (rule Cons.IH [OF rest])
    also have "(\<lambda>key. if key \<in> set keys
                      then (case f key of None \<Rightarrow> (acc(k \<mapsto> v)) key | Some v \<Rightarrow> Some v)
                      else (acc(k \<mapsto> v)) key)
             = (\<lambda>key. if key \<in> set (k # keys)
                      then (case f key of None \<Rightarrow> acc key | Some v \<Rightarrow> Some v) else acc key)"
      using Some by (auto simp add: fun_eq_iff split: option.splits)
    finally show ?thesis .
  qed
qed

text \<open>A comprehension that returns has raised at none of its keys.\<close>

lemma dict_comprehension_Inr_items:
  assumes "dict_comprehension props data' keys acc = Inr m"
    and "key \<in> set keys"
  shows "\<exists>r. comprehension_item props data' key = Inr r"
  using assms
proof (induction keys arbitrary: acc)
  case Nil
  then show ?case by simp
next
  case (Cons k keys)
  then show ?case
    by (auto split: sum.splits option.splits)
qed

text \<open>On a mapping, the item of a property name is what the specification's rule says.\<close>

lemma comprehension_item_mapping:
  assumes "input_mapping data' = Some input"
    and "key \<in> set (map fst props)"
  shows "comprehension_item props data' key = Inr (spec_normalized props input key)"
proof -
  have "map_of props key \<noteq> None"
    using assms(2) by (simp add: map_of_eq_None_iff)
  then obtain p where p: "map_of props key = Some p"
    by auto
  show ?thesis
  proof (cases data')
    case (PyDict d)
    then show ?thesis
      using assms(1) p
      by (auto simp add: input_mapping_def comprehension_item_def spec_normalized_def
          split: option.splits)
  next
    case (QueryDict q)
    then show ?thesis
      using assms(1) p
      by (auto simp add: input_mapping_def comprehension_item_def spec_normalized_def
          split: option.splits)
  qed (use assms(1) in \<open>simp_all add: input_mapping_def\<close>)
qed

lemma parameter_normalize_mapping:
  assumes "input_mapping data' = Some input"
  shows "parameter_normalize schema data'
         = Inr (spec_normalized (schema_get_properties schema) input)"
proof -
  let ?props = "schema_get_properties schema"
  let ?keys = "map fst ?props"
  have "dict_comprehension ?props data' ?keys Map.empty
        = Inr (\<lambda>key. if key \<in> set ?keys
                      then (case spec_normalized ?props input key of
                              None \<Rightarrow> Map.empty key
                            | Some v \<Rightarrow> Some v)
                      else Map.empty key)"
    by (rule dict_comprehension_items) (rule comprehension_item_mapping [OF assms])
  moreover have "(\<lambda>key. if key \<in> set ?keys
                      then (case spec_normalized ?props input key of
                              None \<Rightarrow> Map.empty key
                            | Some v \<Rightarrow> Some v)
                      else Map.empty key) = spec_normalized ?props input"
  proof (rule ext)
    fix key
    show "(if key \<in> set ?keys
           then (case spec_normalized ?props input key of None \<Rightarrow> Map.empty key | Some v \<Rightarrow> Some v)
           else Map.empty key) = spec_normalized ?props input key"
    proof (cases "map_of ?props key")
      case None
      then show ?thesis by (simp add: spec_normalized_def)
    next
      case (Some p)
      then have "key \<in> set ?keys"
        using map_of_eq_None_iff [of ?props key] by simp
      then show ?thesis by (simp split: option.splits)
    qed
  qed
  ultimately show ?thesis
    by (simp add: parameter_normalize_def Let_def)
qed

lemma spec_normalized_dom:
  "dom (spec_normalized props input)
   = {key. \<exists>p. map_of props key = Some p \<and> (input key \<noteq> None \<or> p ''default'' \<noteq> None)}"
  by (auto simp add: spec_normalized_def dom_def split: option.splits)

text \<open>
  C1. For a schema whose properties are \<open>props\<close> and an input that is a mapping and
  passes validation, the wrapper sets \<^verbatim>\<open>request.data\<close> to the mapping the
  specification's rule gives and calls the inner handler. The keys of that mapping are
  exactly the property names that are keys of the input or declare a default; a property
  name that is a key of the input carries the input's value, whatever that value is; one
  that is not carries the declared default; every other key, of the input or not, is
  absent.
\<close>

theorem parameter_data_present_or_defaulted:
  "(parameter_data loads request = Inr data' \<and> validate data' schema = None
      \<and> input_mapping data' = Some input \<and> schema_get_properties schema = props \<longrightarrow>
      parameter_wrapper loads validate schema request
        = Call (request\<lparr>data := Some (spec_normalized props input)\<rparr>)
      \<and> (\<forall>func. parameter loads validate schema func request
            = func (request\<lparr>data := Some (spec_normalized props input)\<rparr>)))
   \<and> dom (spec_normalized props input)
       = {key. \<exists>p. map_of props key = Some p \<and> (input key \<noteq> None \<or> p ''default'' \<noteq> None)}
   \<and> (\<forall>key p v. map_of props key = Some p \<and> input key = Some v \<longrightarrow>
         spec_normalized props input key = Some v)
   \<and> (\<forall>key p. map_of props key = Some p \<and> input key = None \<longrightarrow>
         spec_normalized props input key = p ''default'')
   \<and> (\<forall>key. map_of props key = None \<longrightarrow> spec_normalized props input key = None)"
proof (intro conjI allI impI)
  assume h: "parameter_data loads request = Inr data' \<and> validate data' schema = None
      \<and> input_mapping data' = Some input \<and> schema_get_properties schema = props"
  then have "parameter_normalize schema data' = Inr (spec_normalized props input)"
    using parameter_normalize_mapping [of data' input schema] by simp
  with h show called: "parameter_wrapper loads validate schema request
        = Call (request\<lparr>data := Some (spec_normalized props input)\<rparr>)"
    by (simp add: parameter_wrapper_def parameter_validated_def)
  show "parameter loads validate schema func request
            = func (request\<lparr>data := Some (spec_normalized props input)\<rparr>)" for func
    by (simp add: parameter_def called)
next
  show "dom (spec_normalized props input)
       = {key. \<exists>p. map_of props key = Some p \<and> (input key \<noteq> None \<or> p ''default'' \<noteq> None)}"
    by (rule spec_normalized_dom)
qed (simp_all add: spec_normalized_def)

lemma spec_normalized_default:
  "spec_normalized [(''name'', [''default'' \<mapsto> PyStr ''anon''])] Map.empty
   = [''name'' \<mapsto> PyStr ''anon'']"
  by (rule ext) (simp add: spec_normalized_def)

lemma spec_normalized_no_default:
  "spec_normalized [(''name'', Map.empty)] Map.empty = Map.empty"
  by (rule ext) (simp add: spec_normalized_def)

lemma spec_normalized_falsy:
  "spec_normalized [(''name'', [''default'' \<mapsto> PyStr ''anon'']), (''age'', Map.empty)]
     [''name'' \<mapsto> PyStr '''', ''extra'' \<mapsto> PyInt 1]
   = [''name'' \<mapsto> PyStr '''']"
  by (rule ext) (simp add: spec_normalized_def)

lemma spec_normalized_form:
  "spec_normalized [(''name'', Map.empty)] [''name'' \<mapsto> PyStr ''alice'']
   = [''name'' \<mapsto> PyStr ''alice'']"
  by (rule ext) (simp add: spec_normalized_def)

lemma input_mapping_form:
  "input_mapping (QueryDict [''name'' \<mapsto> [''alice'']]) = Some [''name'' \<mapsto> PyStr ''alice'']"
  by (simp add: input_mapping_def QueryDict_get_def fun_eq_iff)

theorem parameter_data_present_or_defaulted_witness:
  "parameter_wrapper (loads_only ''{}'' (PyDict Map.empty)) accepts
       (schema_of [(''name'', [''default'' \<mapsto> PyStr ''anon''])]) (json_request ''POST'' ''{}'')
     = Call (json_request ''POST'' ''{}''\<lparr>data := Some [''name'' \<mapsto> PyStr ''anon'']\<rparr>)
   \<and> parameter_wrapper (loads_only ''{}'' (PyDict Map.empty)) accepts
       (schema_of [(''name'', Map.empty)]) (json_request ''POST'' ''{}'')
     = Call (json_request ''POST'' ''{}''\<lparr>data := Some Map.empty\<rparr>)
   \<and> parameter_wrapper (loads_only ''{}'' (PyDict Map.empty)) accepts
       (schema_of [(''name'', Map.empty)])
       (anonymous\<lparr>method' := ''POST'', POST := [''name'' \<mapsto> [''alice'']]\<rparr>)
     = Call (anonymous\<lparr>method' := ''POST'', POST := [''name'' \<mapsto> [''alice'']],
                       data := Some [''name'' \<mapsto> PyStr ''alice'']\<rparr>)
   \<and> parameter_wrapper
       (loads_only ''{\"name\": \"\", \"extra\": 1}''
          (PyDict [''name'' \<mapsto> PyStr '''', ''extra'' \<mapsto> PyInt 1]))
       accepts (schema_of [(''name'', [''default'' \<mapsto> PyStr ''anon'']), (''age'', Map.empty)])
       (json_request ''POST'' ''{\"name\": \"\", \"extra\": 1}'')
     = Call (json_request ''POST'' ''{\"name\": \"\", \"extra\": 1}''
               \<lparr>data := Some [''name'' \<mapsto> PyStr '''']\<rparr>)"
proof (intro conjI)
  show "parameter_wrapper (loads_only ''{}'' (PyDict Map.empty)) accepts
       (schema_of [(''name'', [''default'' \<mapsto> PyStr ''anon''])]) (json_request ''POST'' ''{}'')
     = Call (json_request ''POST'' ''{}''\<lparr>data := Some [''name'' \<mapsto> PyStr ''anon'']\<rparr>)"
    using parameter_data_present_or_defaulted
      [of "loads_only ''{}'' (PyDict Map.empty)" "json_request ''POST'' ''{}''"
        "PyDict Map.empty" accepts "schema_of [(''name'', [''default'' \<mapsto> PyStr ''anon''])]"
        Map.empty "[(''name'', [''default'' \<mapsto> PyStr ''anon''])]", THEN conjunct1]
    by (simp add: parameter_data_def json_request_def anonymous_def loads_only_def accepts_def
        schema_of_def schema_get_properties_def input_mapping_def spec_normalized_default)
  show "parameter_wrapper (loads_only ''{}'' (PyDict Map.empty)) accepts
       (schema_of [(''name'', Map.empty)]) (json_request ''POST'' ''{}'')
     = Call (json_request ''POST'' ''{}''\<lparr>data := Some Map.empty\<rparr>)"
    using parameter_data_present_or_defaulted
      [of "loads_only ''{}'' (PyDict Map.empty)" "json_request ''POST'' ''{}''"
        "PyDict Map.empty" accepts "schema_of [(''name'', Map.empty)]"
        Map.empty "[(''name'', Map.empty)]", THEN conjunct1]
    by (simp add: parameter_data_def json_request_def anonymous_def loads_only_def accepts_def
        schema_of_def schema_get_properties_def input_mapping_def spec_normalized_no_default)
  show "parameter_wrapper (loads_only ''{}'' (PyDict Map.empty)) accepts
       (schema_of [(''name'', Map.empty)])
       (anonymous\<lparr>method' := ''POST'', POST := [''name'' \<mapsto> [''alice'']]\<rparr>)
     = Call (anonymous\<lparr>method' := ''POST'', POST := [''name'' \<mapsto> [''alice'']],
                       data := Some [''name'' \<mapsto> PyStr ''alice'']\<rparr>)"
    using parameter_data_present_or_defaulted
      [of "loads_only ''{}'' (PyDict Map.empty)"
        "anonymous\<lparr>method' := ''POST'', POST := [''name'' \<mapsto> [''alice'']]\<rparr>"
        "QueryDict [''name'' \<mapsto> [''alice'']]" accepts "schema_of [(''name'', Map.empty)]"
        "[''name'' \<mapsto> PyStr ''alice'']" "[(''name'', Map.empty)]", THEN conjunct1]
      input_mapping_form
    by (simp add: parameter_data_def anonymous_def accepts_def schema_of_def
        schema_get_properties_def spec_normalized_form)
  show "parameter_wrapper
       (loads_only ''{\"name\": \"\", \"extra\": 1}''
          (PyDict [''name'' \<mapsto> PyStr '''', ''extra'' \<mapsto> PyInt 1]))
       accepts (schema_of [(''name'', [''default'' \<mapsto> PyStr ''anon'']), (''age'', Map.empty)])
       (json_request ''POST'' ''{\"name\": \"\", \"extra\": 1}'')
     = Call (json_request ''POST'' ''{\"name\": \"\", \"extra\": 1}''
               \<lparr>data := Some [''name'' \<mapsto> PyStr '''']\<rparr>)"
    using parameter_data_present_or_defaulted
      [of "loads_only ''{\"name\": \"\", \"extra\": 1}''
             (PyDict [''name'' \<mapsto> PyStr '''', ''extra'' \<mapsto> PyInt 1])"
        "json_request ''POST'' ''{\"name\": \"\", \"extra\": 1}''"
        "PyDict [''name'' \<mapsto> PyStr '''', ''extra'' \<mapsto> PyInt 1]" accepts
        "schema_of [(''name'', [''default'' \<mapsto> PyStr ''anon'']), (''age'', Map.empty)]"
        "[''name'' \<mapsto> PyStr '''', ''extra'' \<mapsto> PyInt 1]"
        "[(''name'', [''default'' \<mapsto> PyStr ''anon'']), (''age'', Map.empty)]", THEN conjunct1]
    by (simp add: parameter_data_def json_request_def anonymous_def loads_only_def accepts_def
        schema_of_def schema_get_properties_def input_mapping_def spec_normalized_falsy)
qed

subsection \<open>parameter: normalizing twice\<close>

lemma parameter_normalize_twice:
  assumes "parameter_normalize schema data' = Inr m"
  shows "parameter_normalize schema (PyDict m) = Inr m"
proof -
  let ?props = "schema_get_properties schema"
  let ?keys = "map fst ?props"
  from assms have run: "dict_comprehension ?props data' ?keys Map.empty = Inr m"
    by (simp add: parameter_normalize_def Let_def)
  define f where
    "f key = (case comprehension_item ?props data' key of Inr r \<Rightarrow> r | Inl e \<Rightarrow> None)" for key
  have items: "comprehension_item ?props data' key = Inr (f key)" if "key \<in> set ?keys" for key
    using dict_comprehension_Inr_items [OF run that] by (auto simp add: f_def)
  have "dict_comprehension ?props data' ?keys Map.empty
        = Inr (\<lambda>key. if key \<in> set ?keys
                      then (case f key of None \<Rightarrow> Map.empty key | Some v \<Rightarrow> Some v)
                      else Map.empty key)"
    by (rule dict_comprehension_items) (rule items)
  with run have "m = (\<lambda>key. if key \<in> set ?keys
                              then (case f key of None \<Rightarrow> Map.empty key | Some v \<Rightarrow> Some v)
                              else Map.empty key)"
    by simp
  also have "\<dots> = (\<lambda>key. if key \<in> set ?keys then f key else None)"
    by (rule ext) (simp split: option.splits)
  finally have m: "m = (\<lambda>key. if key \<in> set ?keys then f key else None)" .
  have again: "comprehension_item ?props (PyDict m) key = Inr (m key)"
    if "key \<in> set ?keys" for key
  proof -
    have "map_of ?props key \<noteq> None"
      using that by (simp add: map_of_eq_None_iff)
    then obtain p where p: "map_of ?props key = Some p"
      by auto
    have mk: "m key = f key"
      using that m by simp
    show ?thesis
    proof (cases "f key")
      case (Some v)
      then show ?thesis
        using mk by (simp add: comprehension_item_def)
    next
      case None
      then have "comprehension_item ?props data' key = Inr None"
        using items [OF that] by simp
      then have "p ''default'' = None"
        using p
        by (auto simp add: comprehension_item_def split: sum.splits if_splits option.splits)
      then show ?thesis
        using None mk p by (simp add: comprehension_item_def)
    qed
  qed
  have "dict_comprehension ?props (PyDict m) ?keys Map.empty
        = Inr (\<lambda>key. if key \<in> set ?keys
                      then (case m key of None \<Rightarrow> Map.empty key | Some v \<Rightarrow> Some v)
                      else Map.empty key)"
    by (rule dict_comprehension_items) (rule again)
  moreover have "(\<lambda>key. if key \<in> set ?keys
                      then (case m key of None \<Rightarrow> Map.empty key | Some v \<Rightarrow> Some v)
                      else Map.empty key) = m"
    by (rule ext) (simp add: m split: option.splits)
  ultimately show ?thesis
    by (simp add: parameter_normalize_def Let_def)
qed

lemma parameter_wrapper_Call:
  assumes "parameter_wrapper loads validate schema request = Call r"
  shows "\<exists>data' m. parameter_normalize schema data' = Inr m \<and> r = request\<lparr>data := Some m\<rparr>"
  using assms
  by (auto simp add: parameter_wrapper_def parameter_validated_def
      split: sum.splits option.splits if_splits)

text \<open>
  C5. If the normalization step for a schema returns the mapping \<open>m\<close>, then the step run
  on \<open>m\<close> for the same schema returns \<open>m\<close> again. So when the wrapper has set
  \<^verbatim>\<open>request.data\<close> to \<open>m\<close>, and a later request brings \<open>m\<close> as its input and passes
  validation, the wrapper sets \<^verbatim>\<open>request.data\<close> of that request to \<open>m\<close>.
\<close>

theorem parameter_normalization_idempotent:
  "(parameter_normalize schema data' = Inr m \<longrightarrow> parameter_normalize schema (PyDict m) = Inr m)
   \<and> (parameter_wrapper loads validate schema request = Call r \<and> data r = Some m'
        \<and> parameter_data loads2 request2 = Inr (PyDict m') \<and> validate2 (PyDict m') schema = None
      \<longrightarrow> parameter_wrapper loads2 validate2 schema request2
            = Call (request2\<lparr>data := Some m'\<rparr>))"
proof (intro conjI impI)
  assume "parameter_normalize schema data' = Inr m"
  then show "parameter_normalize schema (PyDict m) = Inr m"
    by (rule parameter_normalize_twice)
next
  assume h: "parameter_wrapper loads validate schema request = Call r \<and> data r = Some m'
        \<and> parameter_data loads2 request2 = Inr (PyDict m') \<and> validate2 (PyDict m') schema = None"
  then obtain d where "parameter_normalize schema d = Inr m'"
    using parameter_wrapper_Call [of loads validate schema request r] by auto
  then have "parameter_normalize schema (PyDict m') = Inr m'"
    by (rule parameter_normalize_twice)
  with h show "parameter_wrapper loads2 validate2 schema request2
            = Call (request2\<lparr>data := Some m'\<rparr>)"
    by (simp add: parameter_wrapper_def parameter_validated_def)
qed

theorem parameter_normalization_idempotent_witness:
  "parameter_normalize
       (schema_of [(''name'', [''default'' \<mapsto> PyStr ''anon'']), (''age'', Map.empty)])
       (PyDict [''age'' \<mapsto> PyInt 3, ''extra'' \<mapsto> PyInt 1])
     = Inr [''name'' \<mapsto> PyStr ''anon'', ''age'' \<mapsto> PyInt 3]
   \<and> parameter_normalize
       (schema_of [(''name'', [''default'' \<mapsto> PyStr ''anon'']), (''age'', Map.empty)])
       (PyDict [''name'' \<mapsto> PyStr ''anon'', ''age'' \<mapsto> PyInt 3])
     = Inr [''name'' \<mapsto> PyStr ''anon'', ''age'' \<mapsto> PyInt 3]
   \<and> parameter_wrapper
       (loads_only ''{\"name\": \"anon\", \"age\": 3}''
          (PyDict [''name'' \<mapsto> PyStr ''anon'', ''age'' \<mapsto> PyInt 3]))
       accepts (schema_of [(''name'', [''default'' \<mapsto> PyStr ''anon'']), (''age'', Map.empty)])
       (json_request ''POST'' ''{\"name\": \"anon\", \"age\": 3}'')
     = Call (json_request ''POST'' ''{\"name\": \"anon\", \"age\": 3}''
               \<lparr>data := Some [''name'' \<mapsto> PyStr ''anon'', ''age'' \<mapsto> PyInt 3]\<rparr>)"
proof -
  let ?schema = "schema_of [(''name'', [''default'' \<mapsto> PyStr ''anon'']), (''age'', Map.empty)]"
  let ?m = "[''name'' \<mapsto> PyStr ''anon'', ''age'' \<mapsto> PyInt 3]"
  let ?loads1 = "loads_only ''{\"age\": 3, \"extra\": 1}''
                   (PyDict [''age'' \<mapsto> PyInt 3, ''extra'' \<mapsto> PyInt 1])"
  let ?request1 = "json_request ''POST'' ''{\"age\": 3, \"extra\": 1}''"
  let ?loads2 = "loads_only ''{\"name\": \"anon\", \"age\": 3}'' (PyDict ?m)"
  let ?request2 = "json_request ''POST'' ''{\"name\": \"anon\", \"age\": 3}''"
  have first: "parameter_normalize ?schema (PyDict [''age'' \<mapsto> PyInt 3, ''extra'' \<mapsto> PyInt 1])
               = Inr ?m"
    by (simp add: parameter_normalize_def schema_of_def schema_get_properties_def
        comprehension_item_def)
  have run1: "parameter_wrapper ?loads1 accepts ?schema ?request1
              = Call (?request1\<lparr>data := Some ?m\<rparr>)"
    using first
    by (simp add: parameter_wrapper_def parameter_validated_def parameter_data_def
        json_request_def anonymous_def loads_only_def accepts_def)
  have input2: "parameter_data ?loads2 ?request2 = Inr (PyDict ?m)"
    by (simp add: parameter_data_def json_request_def anonymous_def loads_only_def)
  have "parameter_normalize ?schema (PyDict ?m) = Inr ?m"
    using parameter_normalization_idempotent
      [of ?schema "PyDict [''age'' \<mapsto> PyInt 3, ''extra'' \<mapsto> PyInt 1]" ?m,
        THEN conjunct1] first
    by simp
  moreover have "parameter_wrapper ?loads2 accepts ?schema ?request2
                 = Call (?request2\<lparr>data := Some ?m\<rparr>)"
    using parameter_normalization_idempotent
      [of ?schema _ _ ?loads1 accepts ?request1 "?request1\<lparr>data := Some ?m\<rparr>" ?m
        ?loads2 ?request2 accepts, THEN conjunct2] run1 input2
    by (simp add: accepts_def)
  ultimately show ?thesis
    using first by simp
qed

subsection \<open>parameter: a body that is not a mapping\<close>

text \<open>
  C6. The claim is that no exception leaves the wrapper, and that the normalization after a
  successful validation never raises, whatever JSON value the body parses to. The code
  does not keep it. With the schema \<^verbatim>\<open>{"properties": {"name": {}}}\<close>, which admits every
  value, the body \<^verbatim>\<open>5\<close> passes validation and \<^verbatim>\<open>'name' in 5\<close> raises a TypeError;
  the body \<^verbatim>\<open>["name"]\<close> passes too and \<^verbatim>\<open>data.get\<close> raises an AttributeError.
  Neither is caught: the exception leaves the wrapper, the inner handler is not called
  and no response is made.
\<close>

theorem parameter_raises_on_non_mapping_body:
  "parameter_wrapper (loads_only ''5'' (PyInt 5)) accepts (schema_of [(''name'', Map.empty)])
       (json_request ''POST'' ''5'')
     = Raise TypeError (json_request ''POST'' ''5'')
   \<and> parameter (loads_only ''5'' (PyInt 5)) accepts (schema_of [(''name'', Map.empty)])
       (\<lambda>r. (Inr (HttpResponse '''' 200), r)) (json_request ''POST'' ''5'')
     = (Inl TypeError, json_request ''POST'' ''5'')
   \<and> parameter_wrapper (loads_only ''[\"name\"]'' (PyList [PyStr ''name''])) accepts
       (schema_of [(''name'', Map.empty)]) (json_request ''POST'' ''[\"name\"]'')
     = Raise AttributeError (json_request ''POST'' ''[\"name\"]'')"
  by (simp add: parameter_def parameter_wrapper_def parameter_validated_def parameter_data_def
      parameter_normalize_def comprehension_item_def schema_get_properties_def
      json_request_def anonymous_def loads_only_def accepts_def schema_of_def)

end
